theory Spec2Isabelle
  imports Main
begin

section \<open>VaultDAO dashboard: proposals, timelock and threshold\<close>

text \<open>
  The development embeds the proposal logic of the dashboard component
  \<^verbatim>\<open>src/frontend/src/app/dashboard/Proposals.tsx\<close> (the component that starts at
  line 325 of the file, with its \<^verbatim>\<open>Proposal\<close> interface at line 210), and the
  reject handler of the listing component at the top of the same file (line 93).

  A TypeScript \<^verbatim>\<open>number\<close> is modelled as \<^typ>\<open>int\<close>: identifiers, approval
  counts and ledger sequence numbers are integer valued, and in the range where
  JavaScript's arithmetic on them is exact. An optional field \<^verbatim>\<open>f?: number\<close> is an
  \<^typ>\<open>int option\<close>, with \<^term>\<open>None\<close> for an absent field.
\<close>

subsection \<open>Data model\<close>

datatype status = Pending | Approved | Executed | Rejected | Expired

record proposal =
  id' :: int
  proposer :: string
  recipient :: string
  amount :: string
  token :: string
  memo :: string
  status :: status
  approvals :: int
  threshold :: int
  createdAt :: string
  unlockLedger :: "int option"
  currentLedger :: "int option"

text \<open>The three records of \<^verbatim>\<open>mockProposals\<close> (lines 228 to 271).\<close>

definition mockProposal1 :: proposal where
  "mockProposal1 =
     \<lparr> id' = 1, proposer = ''GABC...XYZ1'', recipient = ''GDEF...ABC2'', amount = ''1000'',
       token = ''USDC'', memo = ''Marketing budget'', status = Pending, approvals = 1,
       threshold = 3, createdAt = ''2024-02-15'', unlockLedger = None,
       currentLedger = None \<rparr>"

definition mockProposal2 :: proposal where
  "mockProposal2 =
     \<lparr> id' = 2, proposer = ''GABC...XYZ1'', recipient = ''GHIJ...DEF3'', amount = ''500'',
       token = ''XLM'', memo = ''Development costs'', status = Approved, approvals = 3,
       threshold = 3, createdAt = ''2024-02-14'', unlockLedger = Some 0,
       currentLedger = Some 1000 \<rparr>"

definition mockProposal3 :: proposal where
  "mockProposal3 =
     \<lparr> id' = 3, proposer = ''GABC...XYZ1'', recipient = ''GKLM...GHI4'', amount = ''5000'',
       token = ''XLM'', memo = ''Q1 payroll'', status = Approved, approvals = 3,
       threshold = 3, createdAt = ''2024-02-13'', unlockLedger = Some 1500,
       currentLedger = Some 1200 \<rparr>"

definition mockProposals :: "proposal list" where
  "mockProposals = [mockProposal1, mockProposal2, mockProposal3]"

subsection \<open>Timelock helpers\<close>

text \<open>
  \<^verbatim>\<open>getLedgersRemaining\<close> (lines 341 to 345). The guard
  \<^verbatim>\<open>!proposal.unlockLedger || proposal.unlockLedger === 0\<close> holds for an absent field
  and for 0; \<^verbatim>\<open>proposal.currentLedger ?? 0\<close> reads an absent current ledger as 0.
  The current ledger is a field of the proposal record, not a separate argument: the
  value at block height \<open>b\<close> is the value on \<open>p\<lparr>currentLedger := Some b\<rparr>\<close>.
\<close>

definition getLedgersRemaining :: "proposal \<Rightarrow> int" where
  "getLedgersRemaining p =
     (case unlockLedger p of
        None \<Rightarrow> 0
      | Some u \<Rightarrow>
          if u = 0 then 0
          else (let current = (case currentLedger p of None \<Rightarrow> 0 | Some c \<Rightarrow> c)
                in max 0 (u - current)))"

text \<open>\<^verbatim>\<open>isTimelockExpired\<close> (lines 347 and 348).\<close>

definition isTimelockExpired :: "proposal \<Rightarrow> bool" where
  "isTimelockExpired p = (getLedgersRemaining p = 0)"

text \<open>\<^verbatim>\<open>canExecuteProposal\<close> (lines 350 to 353).\<close>

definition canExecuteProposal :: "proposal \<Rightarrow> bool" where
  "canExecuteProposal p =
     (status p = Approved \<and> approvals p \<ge> threshold p \<and> isTimelockExpired p)"

subsection \<open>Text of numbers and of the dash\<close>

text \<open>
  A template literal \<^verbatim>\<open>${n}\<close> writes an integer in decimal, with a leading minus
  sign when it is negative. Characters outside ASCII are kept as their UTF-8 bytes:
  the dash U+2014 and the ellipsis U+2026 of the source's texts.
\<close>

definition digitChar :: "nat \<Rightarrow> char" where
  "digitChar n = ''0123456789'' ! n"

fun showNat :: "nat \<Rightarrow> string" where
  "showNat n =
     (if n < 10 then [digitChar n] else showNat (n div 10) @ [digitChar (n mod 10)])"

declare showNat.simps [simp del]

definition showInt :: "int \<Rightarrow> string" where
  "showInt i = (if i < 0 then ''-'' @ showNat (nat (- i)) else showNat (nat i))"

definition emDash :: string where
  "emDash = [CHR 0xE2, CHR 0x80, CHR 0x94]"

definition ellipsis :: string where
  "ellipsis = [CHR 0xE2, CHR 0x80, CHR 0xA6]"

subsection \<open>The component's surroundings and state\<close>

text \<open>
  What the hooks hand to the component: \<^verbatim>\<open>useWallet\<close> gives \<^verbatim>\<open>isConnected\<close> and
  \<^verbatim>\<open>address\<close> (a string or null), \<^verbatim>\<open>useVaultContract\<close> gives \<^verbatim>\<open>loading\<close>. The
  role is the constant \<^verbatim>\<open>userRole = 'Admin'\<close> of line 335, whose comment names the
  other values \<^verbatim>\<open>'Treasurer'\<close> and \<^verbatim>\<open>'None'\<close>, to be fetched from the contract; it is
  a field here so that each value can be examined.
\<close>

datatype role = Admin | Treasurer | NoRole

record env =
  isConnected :: bool
  address :: "string option"
  userRole :: role
  loading :: bool

text \<open>
  The submission collaborators \<^verbatim>\<open>rejectProposal\<close> and \<^verbatim>\<open>executeProposal\<close> of
  \<^verbatim>\<open>useVaultContract\<close> are not part of the component: each is a parameter, a function
  from the proposal id to the outcome of the awaited call, either a transaction hash
  (\<^term>\<open>Inr\<close>) or the thrown value (\<^term>\<open>Inl\<close>). The handlers tell an instance of
  \<^verbatim>\<open>Error\<close>, which has a message, from any other thrown value (kept as its text).
\<close>

datatype thrown = ErrorInstance string | OtherThrown string

datatype submission = RejectCall int | ExecuteCall int

datatype toastLevel = Success | Error | Info

record notification =
  eventType :: string
  message :: string
  level :: toastLevel

text \<open>
  The component's state (lines 329 to 332), and the two records of what a handler did
  to its collaborators: the submissions it made and the calls of \<^verbatim>\<open>notify\<close>, oldest
  first. Console output is not recorded. A handler is one step: what other handlers do
  while it awaits its collaborator is not modelled.
\<close>

record state =
  proposals :: "proposal list"
  selectedProposal :: "int option"
  showRejectModal :: bool
  executingId :: "int option"
  submitted :: "submission list"
  notified :: "notification list"

definition initialState :: state where
  "initialState =
     \<lparr> proposals = mockProposals, selectedProposal = None, showRejectModal = False,
       executingId = None, submitted = [], notified = [] \<rparr>"

subsection \<open>Reject handlers\<close>

text \<open>
  \<^verbatim>\<open>canRejectProposal\<close> (lines 359 to 362). \<^verbatim>\<open>!address\<close> holds for null and for the
  empty string.
\<close>

definition canRejectProposal :: "env \<Rightarrow> proposal \<Rightarrow> bool" where
  "canRejectProposal e p =
     (if \<not> isConnected e \<or> address e = None \<or> address e = Some [] then True
      else (Some (proposer p) = address e \<or> userRole e = Admin))"

text \<open>\<^verbatim>\<open>handleRejectClick\<close> and \<^verbatim>\<open>handleRejectCancel\<close> (lines 364 to 367, 390 to 393).\<close>

definition handleRejectClick :: "int \<Rightarrow> state \<Rightarrow> state" where
  "handleRejectClick proposalId s =
     s\<lparr>selectedProposal := Some proposalId, showRejectModal := True\<rparr>"

definition handleRejectCancel :: "state \<Rightarrow> state" where
  "handleRejectCancel s = s\<lparr>showRejectModal := False, selectedProposal := None\<rparr>"

text \<open>
  \<^verbatim>\<open>handleRejectConfirm\<close> (lines 369 to 388): return at once when nothing is selected;
  otherwise await the collaborator; on success mark the selected proposal Rejected and
  notify success; on a throw notify the error; in both cases close the dialogue and
  clear the selection. The reason is only written to the console.
\<close>

definition handleRejectConfirm ::
  "(int \<Rightarrow> thrown + string) \<Rightarrow> string option \<Rightarrow> state \<Rightarrow> state" where
  "handleRejectConfirm rejectProposal reason s =
     (case selectedProposal s of
        None \<Rightarrow> s
      | Some sel \<Rightarrow>
          (let s1 = s\<lparr>submitted := submitted s @ [RejectCall sel]\<rparr>;
               s2 =
                 (case rejectProposal sel of
                    Inr txHash \<Rightarrow>
                      s1\<lparr>proposals :=
                            map (\<lambda>p. if id' p = sel then p\<lparr>status := Rejected\<rparr> else p)
                              (proposals s1),
                          notified := notified s1 @
                            [\<lparr>eventType = ''proposal_rejected'',
                              message = ''Proposal #'' @ showInt sel @ '' rejected successfully'',
                              level = Success\<rparr>]\<rparr>
                  | Inl err \<Rightarrow>
                      (let msg = (case err of
                                    ErrorInstance m \<Rightarrow> m
                                  | OtherThrown v \<Rightarrow> ''Failed to reject proposal'')
                       in s1\<lparr>notified := notified s1 @
                            [\<lparr>eventType = ''proposal_rejected'', message = msg,
                              level = Error\<rparr>]\<rparr>))
           in s2\<lparr>showRejectModal := False, selectedProposal := None\<rparr>))"

subsection \<open>Execute handler\<close>

text \<open>
  \<^verbatim>\<open>handleExecuteClick\<close> (lines 399 to 420): record the id being executed, await the
  collaborator; on success mark the proposal Executed and notify success; on a throw
  notify the error; in both cases clear the id being executed.
\<close>

definition handleExecuteClick :: "(int \<Rightarrow> thrown + string) \<Rightarrow> int \<Rightarrow> state \<Rightarrow> state" where
  "handleExecuteClick executeProposal proposalId s =
     (let s0 = s\<lparr>executingId := Some proposalId\<rparr>;
          s1 = s0\<lparr>submitted := submitted s0 @ [ExecuteCall proposalId]\<rparr>;
          s2 =
            (case executeProposal proposalId of
               Inr txHash \<Rightarrow>
                 s1\<lparr>proposals :=
                       map (\<lambda>p. if id' p = proposalId then p\<lparr>status := Executed\<rparr> else p)
                         (proposals s1),
                     notified := notified s1 @
                       [\<lparr>eventType = ''proposal_executed'',
                         message = ''Proposal #'' @ showInt proposalId @ '' executed '' @ emDash
                           @ '' funds transferred successfully'',
                         level = Success\<rparr>]\<rparr>
             | Inl err \<Rightarrow>
                 (let msg = (case err of
                               ErrorInstance m \<Rightarrow> m
                             | OtherThrown v \<Rightarrow> ''Failed to execute proposal'')
                  in s1\<lparr>notified := notified s1 @
                       [\<lparr>eventType = ''proposal_executed'', message = msg,
                         level = Error\<rparr>]\<rparr>))
      in s2\<lparr>executingId := None\<rparr>)"

subsection \<open>The action buttons of a proposal card\<close>

text \<open>
  What the render shows for one proposal (lines 460 to 463 and 530 to 613): the
  Reject button inside the block for Pending proposals, when \<^verbatim>\<open>canRejectProposal\<close>
  holds; the Execute button inside the block for Approved proposals, disabled when
  \<^verbatim>\<open>canExecuteProposal\<close> fails or the proposal is being executed. A button that is not
  rendered is \<^term>\<open>None\<close>.
\<close>

record button =
  disabled :: bool
  title :: "string option"
  label :: string

definition renderRejectButton :: "env \<Rightarrow> state \<Rightarrow> proposal \<Rightarrow> button option" where
  "renderRejectButton e s p =
     (if status p = Pending \<and> canRejectProposal e p
      then Some \<lparr> disabled = loading e, title = None,
                  label = (if loading e \<and> selectedProposal s = Some (id' p)
                           then ''Rejecting...'' else ''Reject'') \<rparr>
      else None)"

definition renderExecuteButton :: "env \<Rightarrow> state \<Rightarrow> proposal \<Rightarrow> button option" where
  "renderExecuteButton e s p =
     (let ledgersLeft = getLedgersRemaining p;
          timelocked = ledgersLeft > 0;
          isExecuting = (executingId s = Some (id' p) \<and> loading e)
      in if status p = Approved
         then Some \<lparr> disabled = (\<not> canExecuteProposal p \<or> isExecuting),
                     title = Some (if timelocked
                                   then ''Timelocked '' @ emDash @ '' wait '' @ showInt ledgersLeft
                                          @ '' more ledgers''
                                   else ''Execute this proposal to transfer funds''),
                     label = (if isExecuting then ''Executing'' @ ellipsis
                              else if timelocked then ''Execute (Locked)''
                              else ''Execute'') \<rparr>
         else None)"

text \<open>
  Collaborators for concrete runs: one that confirms every submission with a given
  transaction hash, one that throws a given value on every submission.
\<close>

definition confirms :: "string \<Rightarrow> int \<Rightarrow> thrown + string" where
  "confirms txHash proposalId = Inr txHash"

definition throws :: "thrown \<Rightarrow> int \<Rightarrow> thrown + string" where
  "throws err proposalId = Inl err"

subsection \<open>The listing component's reject handler\<close>

text \<open>
  The component at the top of the file (lines 13 to 199) keeps proposals with a string
  id and a string status. Its \<^verbatim>\<open>handleRejectConfirm\<close> (lines 93 to 103) has no
  collaborator: it marks the proposal Rejected at once. \<^verbatim>\<open>!rejectingId\<close> holds for
  null and for the empty string. Of the component's state, only what the reject
  handlers touch is kept. Names carry the suffix L where they would clash.
\<close>

record proposalL =
  idL :: string
  titleL :: string
  descriptionL :: string
  statusL :: string
  creatorL :: string
  recipientL :: string
  createdAtL :: string
  approvalsL :: int
  amountL :: "string option"

record stateL =
  proposalsL :: "proposalL list"
  showRejectModalL :: bool
  rejectingId :: "string option"

definition mockData :: "proposalL list" where
  "mockData =
     [\<lparr> idL = ''1'', titleL = ''Liquidity Pool Expansion'',
        descriptionL = ''Adding 100 ETH to LP'', statusL = ''Pending'', creatorL = ''0x123'',
        recipientL = ''0xabc'', createdAtL = ''2026-02-21'', approvalsL = 1,
        amountL = Some ''100'' \<rparr>]"

definition handleOpenReject :: "string \<Rightarrow> stateL \<Rightarrow> stateL" where
  "handleOpenReject ident s = s\<lparr>rejectingId := Some ident, showRejectModalL := True\<rparr>"

definition handleRejectConfirmL :: "string option \<Rightarrow> stateL \<Rightarrow> stateL" where
  "handleRejectConfirmL reason s =
     (case rejectingId s of
        None \<Rightarrow> s
      | Some rid \<Rightarrow>
          if rid = [] then s
          else s\<lparr>proposalsL :=
                    map (\<lambda>p. if idL p = rid then p\<lparr>statusL := ''Rejected''\<rparr> else p)
                      (proposalsL s),
                  showRejectModalL := False,
                  rejectingId := None\<rparr>)"

subsection \<open>Block height refresh\<close>

text \<open>
  Modelled from the spec: the ledger that holds the proposals and the current block
  height. The source files have no such stored value: there the current ledger is only
  a field of each proposal record, which no handler writes.
\<close>

record proposalLedger =
  ledgerProposals :: "proposal list"
  currentBlock :: int

text \<open>
  Modelled from the spec: the operation \<^verbatim>\<open>refreshBlockHeight\<close>, which is missing from
  the source files. The spec's words: it updates the ledger's notion of the current
  block; a value lower than the stored one is rejected as a no-op rather than applied.
\<close>

definition refreshBlockHeight :: "int \<Rightarrow> proposalLedger \<Rightarrow> proposalLedger" where
  "refreshBlockHeight newBlock l =
     (if newBlock < currentBlock l then l else l\<lparr>currentBlock := newBlock\<rparr>)"

section \<open>Properties of the timelock helpers\<close>

text \<open>
  Claim C1. For every proposal and every current ledger (a block height, or none
  recorded), \<^verbatim>\<open>canExecuteProposal\<close> holds exactly when the status is Approved, the
  approvals reach the threshold and the timelock has expired; with fewer approvals
  than the threshold it is false whatever the current ledger is.
\<close>

theorem canExecuteProposal_iff:
  "canExecuteProposal (p\<lparr>currentLedger := cur\<rparr>) =
     (status p = Approved \<and> approvals p \<ge> threshold p
      \<and> isTimelockExpired (p\<lparr>currentLedger := cur\<rparr>))
   \<and> (approvals p < threshold p \<longrightarrow> \<not> canExecuteProposal (p\<lparr>currentLedger := cur\<rparr>))"
  by (simp add: canExecuteProposal_def)

theorem canExecuteProposal_iff_witness:
  "approvals mockProposal1 < threshold mockProposal1
   \<and> \<not> canExecuteProposal (mockProposal1\<lparr>currentLedger := Some 1000\<rparr>)
   \<and> canExecuteProposal (mockProposal2\<lparr>currentLedger := Some 1000\<rparr>)"
  using canExecuteProposal_iff [where p = mockProposal1 and cur = "Some 1000"]
    canExecuteProposal_iff [where p = mockProposal2 and cur = "Some 1000"]
  by (simp add: mockProposal1_def mockProposal2_def isTimelockExpired_def
      getLedgersRemaining_def)

lemma getLedgersRemaining_fields:
  assumes "unlockLedger p = unlockLedger q" and "currentLedger p = currentLedger q"
  shows "getLedgersRemaining p = getLedgersRemaining q"
  unfolding getLedgersRemaining_def assms by (rule refl)

text \<open>
  Claim C2. With a nonzero unlock ledger \<open>u\<close>, the ledgers remaining at block height
  \<open>b\<close> are \<open>max 0 (u - b)\<close>; with an unlock ledger that is 0 or absent they are 0,
  whatever the current ledger. The helper is a function of the proposal record alone,
  and of its two ledger fields only: it reads and writes nothing else.
\<close>

theorem getLedgersRemaining_contract:
  "(unlockLedger p = Some u \<and> u \<noteq> 0 \<longrightarrow>
      getLedgersRemaining (p\<lparr>currentLedger := Some b\<rparr>) = max 0 (u - b))
   \<and> (unlockLedger p = Some 0 \<or> unlockLedger p = None \<longrightarrow>
      getLedgersRemaining (p\<lparr>currentLedger := cur\<rparr>) = 0)
   \<and> (unlockLedger p = unlockLedger q \<and> currentLedger p = currentLedger q \<longrightarrow>
      getLedgersRemaining p = getLedgersRemaining q)"
  using getLedgersRemaining_fields [of p q]
  by (auto simp add: getLedgersRemaining_def)

theorem getLedgersRemaining_contract_witness:
  "unlockLedger mockProposal3 = Some 1500 \<and> (1500::int) \<noteq> 0
   \<and> getLedgersRemaining (mockProposal3\<lparr>currentLedger := Some 1200\<rparr>) = 300
   \<and> getLedgersRemaining (mockProposal3\<lparr>currentLedger := Some 1700\<rparr>) = 0
   \<and> unlockLedger mockProposal2 = Some 0
   \<and> getLedgersRemaining (mockProposal2\<lparr>currentLedger := Some 1000\<rparr>) = 0
   \<and> unlockLedger mockProposal1 = None
   \<and> getLedgersRemaining (mockProposal1\<lparr>currentLedger := None\<rparr>) = 0
   \<and> getLedgersRemaining (mockProposal3\<lparr>status := Executed\<rparr>)
       = getLedgersRemaining mockProposal3"
  using getLedgersRemaining_contract [where p = mockProposal3 and u = 1500 and b = 1200]
    getLedgersRemaining_contract [where p = mockProposal3 and u = 1500 and b = 1700]
    getLedgersRemaining_contract [where p = mockProposal2 and cur = "Some 1000"]
    getLedgersRemaining_contract [where p = mockProposal1 and cur = None]
    getLedgersRemaining_contract [where p = "mockProposal3\<lparr>status := Executed\<rparr>"
      and q = mockProposal3, THEN conjunct2, THEN conjunct2]
  by (simp add: mockProposal1_def mockProposal2_def mockProposal3_def)

text \<open>
  Claim C3. The timelock counts as expired exactly when no ledgers remain; a proposal
  whose unlock ledger is 0 (or absent) is expired at every current ledger.
\<close>

theorem isTimelockExpired_iff:
  "isTimelockExpired (p\<lparr>currentLedger := cur\<rparr>)
     = (getLedgersRemaining (p\<lparr>currentLedger := cur\<rparr>) = 0)
   \<and> (unlockLedger p = Some 0 \<or> unlockLedger p = None \<longrightarrow>
        isTimelockExpired (p\<lparr>currentLedger := cur\<rparr>))"
  by (auto simp add: isTimelockExpired_def getLedgersRemaining_def)

theorem isTimelockExpired_iff_witness:
  "unlockLedger mockProposal2 = Some 0
   \<and> isTimelockExpired (mockProposal2\<lparr>currentLedger := Some 7\<rparr>)
   \<and> isTimelockExpired (mockProposal2\<lparr>currentLedger := None\<rparr>)"
  using isTimelockExpired_iff [where p = mockProposal2 and cur = "Some 7", THEN conjunct2]
    isTimelockExpired_iff [where p = mockProposal2 and cur = None, THEN conjunct2]
  by (simp add: mockProposal2_def)

text \<open>
  Claim C4. The ledgers remaining never increase when the block height grows, and
  they are never negative.
\<close>

theorem getLedgersRemaining_antimono:
  "(b1 \<le> b2 \<longrightarrow>
      getLedgersRemaining (p\<lparr>currentLedger := Some b2\<rparr>)
        \<le> getLedgersRemaining (p\<lparr>currentLedger := Some b1\<rparr>))
   \<and> 0 \<le> getLedgersRemaining (p\<lparr>currentLedger := cur\<rparr>)"
  by (auto simp add: getLedgersRemaining_def split: option.splits)

theorem getLedgersRemaining_antimono_witness:
  "(1200::int) \<le> 1400
   \<and> getLedgersRemaining (mockProposal3\<lparr>currentLedger := Some 1400\<rparr>)
        \<le> getLedgersRemaining (mockProposal3\<lparr>currentLedger := Some 1200\<rparr>)
   \<and> 0 \<le> getLedgersRemaining (mockProposal3\<lparr>currentLedger := Some 1700\<rparr>)"
  using getLedgersRemaining_antimono [where ?b1.0 = 1200 and ?b2.0 = 1400 and p = mockProposal3
      and cur = "Some 1700"]
  by simp

section \<open>Properties of the reject and execute paths\<close>

subsection \<open>Who may reject\<close>

text \<open>
  Claim C5, as stated: \<^verbatim>\<open>canRejectProposal\<close> holds exactly when the status is Pending
  and the actor is the proposer or an admin. The helper does not read the status and
  has a demo mode. First instance: the proposer connected, role Admin as in the
  source, the Approved second mock proposal: the helper holds although the status is
  not Pending. Second instance: no wallet connected, role Treasurer, the Pending first
  mock proposal: the helper holds although the actor is neither the proposer nor an
  admin.
\<close>

theorem canRejectProposal_counterexample:
  "canRejectProposal
     \<lparr>isConnected = True, address = Some ''GABC...XYZ1'', userRole = Admin, loading = False\<rparr>
     mockProposal2
   \<and> status mockProposal2 \<noteq> Pending
   \<and> canRejectProposal
       \<lparr>isConnected = False, address = None, userRole = Treasurer, loading = False\<rparr>
       mockProposal1
   \<and> status mockProposal1 = Pending
   \<and> address \<lparr>isConnected = False, address = None, userRole = Treasurer, loading = False\<rparr>
       \<noteq> Some (proposer mockProposal1)
   \<and> userRole \<lparr>isConnected = False, address = None, userRole = Treasurer, loading = False\<rparr>
       \<noteq> Admin"
  by (simp add: canRejectProposal_def mockProposal1_def mockProposal2_def)

text \<open>
  Claim C5, amended. \<^verbatim>\<open>canRejectProposal\<close> holds exactly when no wallet is connected or
  it has no address (demo mode), or the address is the proposer's, or the role is Admin;
  the status plays no part in it (with the role Admin, as the source has it, it holds
  for every proposal). The status is checked where the card is rendered: the
  Reject button exists exactly for a Pending proposal on which \<^verbatim>\<open>canRejectProposal\<close>
  holds. So with a wallet connected at address \<open>a\<close>, the button exists exactly when the
  status is Pending and \<open>a\<close> is the proposer or the role is Admin, and no proposal in
  another status is offered for rejection.
\<close>

theorem canRejectProposal_iff:
  "canRejectProposal e p =
     (\<not> isConnected e \<or> address e = None \<or> address e = Some []
      \<or> address e = Some (proposer p) \<or> userRole e = Admin)
   \<and> canRejectProposal e (p\<lparr>status := st\<rparr>) = canRejectProposal e p
   \<and> (userRole e = Admin \<longrightarrow> canRejectProposal e p)
   \<and> (renderRejectButton e s p \<noteq> None) = (status p = Pending \<and> canRejectProposal e p)
   \<and> (isConnected e \<and> address e = Some a \<and> a \<noteq> [] \<longrightarrow>
        (renderRejectButton e s p \<noteq> None)
          = (status p = Pending \<and> (a = proposer p \<or> userRole e = Admin)))
   \<and> (status p \<noteq> Pending \<longrightarrow> renderRejectButton e s p = None)"
  by (auto simp add: canRejectProposal_def renderRejectButton_def)

theorem canRejectProposal_iff_witness:
  "isConnected \<lparr>isConnected = True, address = Some ''GXYZ'', userRole = Treasurer, loading = False\<rparr>
   \<and> address \<lparr>isConnected = True, address = Some ''GXYZ'', userRole = Treasurer, loading = False\<rparr>
       = Some ''GXYZ''
   \<and> ''GXYZ'' \<noteq> []
   \<and> renderRejectButton
        \<lparr>isConnected = True, address = Some ''GXYZ'', userRole = Treasurer, loading = False\<rparr>
        initialState mockProposal1 = None
   \<and> status mockProposal2 \<noteq> Pending
   \<and> renderRejectButton
        \<lparr>isConnected = True, address = Some ''GABC...XYZ1'', userRole = Admin, loading = False\<rparr>
        initialState mockProposal2 = None"
  using canRejectProposal_iff [where p = mockProposal1 and a = "''GXYZ''" and s = initialState
      and e = "\<lparr>isConnected = True, address = Some ''GXYZ'', userRole = Treasurer, loading = False\<rparr>",
      THEN conjunct2, THEN conjunct2, THEN conjunct2, THEN conjunct2, THEN conjunct1]
    canRejectProposal_iff [where p = mockProposal2 and s = initialState
      and e = "\<lparr>isConnected = True, address = Some ''GABC...XYZ1'', userRole = Admin, loading = False\<rparr>",
      THEN conjunct2, THEN conjunct2, THEN conjunct2, THEN conjunct2, THEN conjunct2]
  by (simp add: mockProposal1_def mockProposal2_def)

subsection \<open>Rejecting an executed proposal\<close>

text \<open>
  Claim C6, as stated: reject on an Executed proposal fails with Forbidden and changes
  nothing. Neither reject handler checks the status, and the source has no Forbidden
  error. A run from the initial state: the second mock proposal is executed, then
  selected and rejected with a confirming collaborator; its status goes from Executed
  to Rejected and success is notified. The listing component's handler does the same
  to a proposal whose status is the string Executed.
\<close>

theorem reject_executed_counterexample:
  "map status (proposals (handleExecuteClick (confirms ''tx1'') 2 initialState))
     = [Pending, Executed, Approved]
   \<and> map status (proposals
        (handleRejectConfirm (confirms ''tx2'') None
          (handleRejectClick 2 (handleExecuteClick (confirms ''tx1'') 2 initialState))))
     = [Pending, Rejected, Approved]
   \<and> map level (notified
        (handleRejectConfirm (confirms ''tx2'') None
          (handleRejectClick 2 (handleExecuteClick (confirms ''tx1'') 2 initialState))))
     = [Success, Success]
   \<and> map statusL (proposalsL
        (handleRejectConfirmL None
          \<lparr>proposalsL = [(hd mockData)\<lparr>statusL := ''Executed''\<rparr>], showRejectModalL = True,
            rejectingId = Some ''1''\<rparr>))
     = [''Rejected'']"
  by (simp add: handleRejectConfirm_def handleRejectClick_def handleExecuteClick_def
      confirms_def initialState_def mockProposals_def mockProposal1_def mockProposal2_def
      mockProposal3_def handleRejectConfirmL_def mockData_def Let_def)

text \<open>
  Claim C6, amended. Reject is not offered for an Executed proposal: the Reject button
  is rendered for Pending proposals only. The confirm handler itself checks no status
  and reports no Forbidden error: with a proposal selected and the collaborator
  confirming, it sets the status of the selected proposal to Rejected whatever it was
  and leaves the other proposals as they were; with nothing selected it changes
  nothing.
\<close>

theorem reject_gate:
  "(status p = Executed \<longrightarrow> renderRejectButton e s p = None)
   \<and> (selectedProposal s = Some sel \<and> rejectProposal sel = Inr txHash \<longrightarrow>
        proposals (handleRejectConfirm rejectProposal reason s)
          = map (\<lambda>q. if id' q = sel then q\<lparr>status := Rejected\<rparr> else q) (proposals s))
   \<and> (selectedProposal s = None \<longrightarrow> handleRejectConfirm rejectProposal reason s = s)"
  by (simp add: renderRejectButton_def handleRejectConfirm_def Let_def)

theorem reject_gate_witness:
  "status (mockProposal2\<lparr>status := Executed\<rparr>) = Executed
   \<and> renderRejectButton
        \<lparr>isConnected = True, address = Some ''GABC...XYZ1'', userRole = Admin, loading = False\<rparr>
        initialState (mockProposal2\<lparr>status := Executed\<rparr>) = None
   \<and> selectedProposal (handleRejectClick 1 initialState) = Some 1
   \<and> confirms ''tx'' 1 = Inr ''tx''
   \<and> map status (proposals (handleRejectConfirm (confirms ''tx'') None
         (handleRejectClick 1 initialState))) = [Rejected, Approved, Approved]
   \<and> selectedProposal initialState = None
   \<and> handleRejectConfirm (confirms ''tx'') None initialState = initialState"
  using reject_gate [where p = "mockProposal2\<lparr>status := Executed\<rparr>"
      and e = "\<lparr>isConnected = True, address = Some ''GABC...XYZ1'', userRole = Admin, loading = False\<rparr>"
      and s = initialState and rejectProposal = "confirms ''tx''" and reason = None,
      THEN conjunct1]
    reject_gate [where s = "handleRejectClick 1 initialState" and sel = 1
      and rejectProposal = "confirms ''tx''" and txHash = "''tx''" and reason = None,
      THEN conjunct2, THEN conjunct1]
    reject_gate [where s = initialState and rejectProposal = "confirms ''tx''" and reason = None,
      THEN conjunct2, THEN conjunct2]
  by (simp add: handleRejectClick_def confirms_def initialState_def mockProposals_def
      mockProposal1_def mockProposal2_def mockProposal3_def)

subsection \<open>A collaborator that throws\<close>

text \<open>
  Claim C7, as stated: when the collaborator throws, the proposals are as before and
  the collaborator's message reaches the caller verbatim. The first half holds. The
  message is passed on only for an instance of \<^verbatim>\<open>Error\<close>: when the collaborator throws
  the string \<^verbatim>\<open>ledger closed\<close>, the handlers notify their own fixed texts.
\<close>

theorem failure_message_counterexample:
  "proposals (handleRejectConfirm (throws (OtherThrown ''ledger closed'')) None
      (handleRejectClick 1 initialState)) = proposals initialState
   \<and> map message (notified (handleRejectConfirm (throws (OtherThrown ''ledger closed'')) None
      (handleRejectClick 1 initialState))) = [''Failed to reject proposal'']
   \<and> map message (notified (handleExecuteClick (throws (OtherThrown ''ledger closed'')) 2
      initialState)) = [''Failed to execute proposal'']
   \<and> ''Failed to reject proposal'' \<noteq> ''ledger closed''
   \<and> ''Failed to execute proposal'' \<noteq> ''ledger closed''"
  by (simp add: handleRejectConfirm_def handleRejectClick_def handleExecuteClick_def
      throws_def initialState_def Let_def)

text \<open>
  Claim C7, amended. For every reject or execute in which the collaborator throws, the
  proposals afterwards are the proposals before, and exactly one notification of level
  Error is added: its message is the thrown error's message, verbatim, when the thrown
  value is an instance of \<^verbatim>\<open>Error\<close>, and the handler's fixed text (Failed to reject
  proposal, Failed to execute proposal) for any other thrown value.
\<close>

theorem failure_leaves_proposals:
  "(selectedProposal s = Some sel \<and> rejectProposal sel = Inl err \<longrightarrow>
      proposals (handleRejectConfirm rejectProposal reason s) = proposals s
      \<and> notified (handleRejectConfirm rejectProposal reason s)
          = notified s @
            [\<lparr>eventType = ''proposal_rejected'',
              message = (case err of ErrorInstance m \<Rightarrow> m
                         | OtherThrown v \<Rightarrow> ''Failed to reject proposal''),
              level = Error\<rparr>])
   \<and> (executeProposal proposalId = Inl err \<longrightarrow>
      proposals (handleExecuteClick executeProposal proposalId s) = proposals s
      \<and> notified (handleExecuteClick executeProposal proposalId s)
          = notified s @
            [\<lparr>eventType = ''proposal_executed'',
              message = (case err of ErrorInstance m \<Rightarrow> m
                         | OtherThrown v \<Rightarrow> ''Failed to execute proposal''),
              level = Error\<rparr>])"
  by (simp add: handleRejectConfirm_def handleExecuteClick_def Let_def)

theorem failure_leaves_proposals_witness:
  "selectedProposal (handleRejectClick 1 initialState) = Some 1
   \<and> throws (ErrorInstance ''insufficient balance'') 1 = Inl (ErrorInstance ''insufficient balance'')
   \<and> proposals (handleRejectConfirm (throws (ErrorInstance ''insufficient balance'')) None
        (handleRejectClick 1 initialState)) = mockProposals
   \<and> notified (handleRejectConfirm (throws (ErrorInstance ''insufficient balance'')) None
        (handleRejectClick 1 initialState))
      = [\<lparr>eventType = ''proposal_rejected'', message = ''insufficient balance'', level = Error\<rparr>]
   \<and> throws (ErrorInstance ''insufficient balance'') 2 = Inl (ErrorInstance ''insufficient balance'')
   \<and> proposals (handleExecuteClick (throws (ErrorInstance ''insufficient balance'')) 2 initialState)
      = mockProposals
   \<and> notified (handleExecuteClick (throws (ErrorInstance ''insufficient balance'')) 2 initialState)
      = [\<lparr>eventType = ''proposal_executed'', message = ''insufficient balance'', level = Error\<rparr>]"
  using failure_leaves_proposals [where s = "handleRejectClick 1 initialState" and sel = 1
      and rejectProposal = "throws (ErrorInstance ''insufficient balance'')"
      and err = "ErrorInstance ''insufficient balance''" and reason = None, THEN conjunct1]
    failure_leaves_proposals [where s = initialState and proposalId = 2
      and executeProposal = "throws (ErrorInstance ''insufficient balance'')"
      and err = "ErrorInstance ''insufficient balance''", THEN conjunct2]
  by (simp add: handleRejectClick_def throws_def initialState_def)

subsection \<open>Refreshing the block height\<close>

lemma refreshBlockHeight_step:
  "currentBlock l \<le> currentBlock (refreshBlockHeight n l)"
  by (simp add: refreshBlockHeight_def)

lemma refreshBlockHeight_fold:
  "currentBlock l \<le> currentBlock (fold refreshBlockHeight ns l)"
proof (induction ns arbitrary: l)
  case Nil
  show ?case by simp
next
  case (Cons n ns)
  have "currentBlock l \<le> currentBlock (refreshBlockHeight n l)"
    by (rule refreshBlockHeight_step)
  also have "\<dots> \<le> currentBlock (fold refreshBlockHeight ns (refreshBlockHeight n l))"
    by (rule Cons.IH)
  finally show ?case by simp
qed

text \<open>
  Claim C8. A refresh with a value below the stored block height leaves the ledger as
  it is; any other value becomes the stored block height. So the stored block height
  never decreases, over one refresh and over any sequence of refreshes, and the
  proposals are not touched.
\<close>

theorem refreshBlockHeight_monotone:
  "(n < currentBlock l \<longrightarrow> refreshBlockHeight n l = l)
   \<and> (\<not> n < currentBlock l \<longrightarrow> currentBlock (refreshBlockHeight n l) = n)
   \<and> currentBlock l \<le> currentBlock (refreshBlockHeight n l)
   \<and> currentBlock l \<le> currentBlock (fold refreshBlockHeight ns l)
   \<and> ledgerProposals (refreshBlockHeight n l) = ledgerProposals l"
  using refreshBlockHeight_fold [of l ns]
  by (simp add: refreshBlockHeight_def)

theorem refreshBlockHeight_monotone_witness:
  "(1100::int) < currentBlock \<lparr>ledgerProposals = mockProposals, currentBlock = 1200\<rparr>
   \<and> refreshBlockHeight 1100 \<lparr>ledgerProposals = mockProposals, currentBlock = 1200\<rparr>
       = \<lparr>ledgerProposals = mockProposals, currentBlock = 1200\<rparr>
   \<and> \<not> (1300::int) < currentBlock \<lparr>ledgerProposals = mockProposals, currentBlock = 1200\<rparr>
   \<and> currentBlock (refreshBlockHeight 1300 \<lparr>ledgerProposals = mockProposals, currentBlock = 1200\<rparr>)
       = 1300"
  using refreshBlockHeight_monotone [where n = 1100
      and l = "\<lparr>ledgerProposals = mockProposals, currentBlock = 1200\<rparr>", THEN conjunct1]
    refreshBlockHeight_monotone [where n = 1300
      and l = "\<lparr>ledgerProposals = mockProposals, currentBlock = 1200\<rparr>",
      THEN conjunct2, THEN conjunct1]
  by simp

subsection \<open>Executing a proposal that cannot be executed\<close>

lemma showInt_300: "showInt 300 = ''300''"
  by (simp add: showInt_def showNat.simps digitChar_def)

lemma renderExecuteButton_None:
  "(renderExecuteButton e s p = None) = (status p \<noteq> Approved)"
  by (simp add: renderExecuteButton_def Let_def)

lemma showInt_42: "showInt 42 = ''42''"
  by (simp add: showInt_def showNat.simps digitChar_def)

lemma renderExecuteButton_Approved:
  "status p = Approved \<Longrightarrow>
   renderExecuteButton e s p
     = Some \<lparr>disabled = (\<not> canExecuteProposal p \<or> (executingId s = Some (id' p) \<and> loading e)),
             title = Some (if 0 < getLedgersRemaining p
                           then ''Timelocked '' @ emDash @ '' wait ''
                                  @ showInt (getLedgersRemaining p) @ '' more ledgers''
                           else ''Execute this proposal to transfer funds''),
             label = (if executingId s = Some (id' p) \<and> loading e then ''Executing'' @ ellipsis
                      else if 0 < getLedgersRemaining p then ''Execute (Locked)''
                      else ''Execute'')\<rparr>"
  by (simp add: renderExecuteButton_def Let_def)

lemma getLedgersRemaining_nonneg: "0 \<le> getLedgersRemaining p"
  by (auto simp add: getLedgersRemaining_def split: option.splits)

lemma timelocked_not_executable:
  "0 < getLedgersRemaining p \<Longrightarrow> \<not> canExecuteProposal p"
  by (simp add: canExecuteProposal_def isTimelockExpired_def)

lemma plain_label_cause:
  assumes r: "renderExecuteButton e s p = Some b"
    and d: "disabled b" and l: "label b = ''Execute''"
  shows "approvals p < threshold p \<and> getLedgersRemaining p = 0"
proof -
  have a: "status p = Approved"
    using r renderExecuteButton_None [of e s p] by auto
  note eq = renderExecuteButton_Approved [OF a, of e s]
  have b: "b = \<lparr>disabled = (\<not> canExecuteProposal p \<or> (executingId s = Some (id' p) \<and> loading e)),
             title = Some (if 0 < getLedgersRemaining p
                           then ''Timelocked '' @ emDash @ '' wait ''
                                  @ showInt (getLedgersRemaining p) @ '' more ledgers''
                           else ''Execute this proposal to transfer funds''),
             label = (if executingId s = Some (id' p) \<and> loading e then ''Executing'' @ ellipsis
                      else if 0 < getLedgersRemaining p then ''Execute (Locked)''
                      else ''Execute'')\<rparr>"
    using r eq by simp
  have nx: "\<not> (executingId s = Some (id' p) \<and> loading e)"
    using l b by (auto simp add: ellipsis_def split: if_splits)
  have nt: "\<not> 0 < getLedgersRemaining p"
    using l b nx by (auto split: if_splits)
  have z: "getLedgersRemaining p = 0"
    using nt getLedgersRemaining_nonneg [of p] by simp
  have "\<not> canExecuteProposal p"
    using d b nx by simp
  then have "approvals p < threshold p"
    using a z by (simp add: canExecuteProposal_def isTimelockExpired_def)
  then show ?thesis using z by simp
qed

lemma locked_label_cause:
  assumes r: "renderExecuteButton e s p = Some b" and l: "label b = ''Execute (Locked)''"
  shows "0 < getLedgersRemaining p \<and> disabled b"
proof -
  have a: "status p = Approved"
    using r renderExecuteButton_None [of e s p] by auto
  have b: "b = \<lparr>disabled = (\<not> canExecuteProposal p \<or> (executingId s = Some (id' p) \<and> loading e)),
             title = Some (if 0 < getLedgersRemaining p
                           then ''Timelocked '' @ emDash @ '' wait ''
                                  @ showInt (getLedgersRemaining p) @ '' more ledgers''
                           else ''Execute this proposal to transfer funds''),
             label = (if executingId s = Some (id' p) \<and> loading e then ''Executing'' @ ellipsis
                      else if 0 < getLedgersRemaining p then ''Execute (Locked)''
                      else ''Execute'')\<rparr>"
    using r renderExecuteButton_Approved [OF a, of e s] by simp
  have t: "0 < getLedgersRemaining p"
    using l b by (auto simp add: ellipsis_def split: if_splits)
  have "disabled b"
    using b timelocked_not_executable [OF t] by simp
  then show ?thesis using t by simp
qed

lemma scenario_timelocked:
  assumes "status p = Approved" "threshold p = 3" "approvals p = 3"
    "unlockLedger p = Some 1500" "currentLedger p = Some 1200"
    "\<not> (executingId s = Some (id' p) \<and> loading e)"
  shows "\<not> canExecuteProposal p \<and> getLedgersRemaining p = 300
    \<and> renderExecuteButton e s p
        = Some \<lparr>disabled = True,
                title = Some (''Timelocked '' @ emDash @ '' wait 300 more ledgers''),
                label = ''Execute (Locked)''\<rparr>"
proof -
  have r: "getLedgersRemaining p = 300"
    using assms by (simp add: getLedgersRemaining_def)
  have c: "\<not> canExecuteProposal p"
    using r by (simp add: canExecuteProposal_def isTimelockExpired_def)
  show ?thesis
    using assms r c by (simp add: renderExecuteButton_def Let_def showInt_300)
qed

lemma scenario_threshold:
  assumes "status p = Approved" "threshold p = 3" "approvals p = 1"
    "unlockLedger p = Some 0" "\<not> (executingId s = Some (id' p) \<and> loading e)"
  shows "\<not> canExecuteProposal p \<and> getLedgersRemaining p = 0
    \<and> renderExecuteButton e s p
        = Some \<lparr>disabled = True,
                title = Some ''Execute this proposal to transfer funds'',
                label = ''Execute''\<rparr>"
proof -
  have r: "getLedgersRemaining p = 0"
    using assms by (simp add: getLedgersRemaining_def)
  have c: "\<not> canExecuteProposal p"
    using assms by (simp add: canExecuteProposal_def)
  show ?thesis
    using assms r c by (simp add: renderExecuteButton_def Let_def)
qed

lemma handleExecuteClick_submitted:
  "submitted (handleExecuteClick executeProposal proposalId s)
     = submitted s @ [ExecuteCall proposalId]"
  by (simp add: handleExecuteClick_def Let_def split: sum.splits thrown.splits)

lemma handleExecuteClick_confirmed:
  "executeProposal proposalId = Inr txHash \<Longrightarrow>
   proposals (handleExecuteClick executeProposal proposalId s)
     = map (\<lambda>p. if id' p = proposalId then p\<lparr>status := Executed\<rparr> else p) (proposals s)"
  by (simp add: handleExecuteClick_def Let_def)

text \<open>
  Claim C9, as stated: execute on a proposal that cannot be executed fails with
  NotExecutable, before any external call. The handler checks nothing and the source
  has no such error. From the initial state, executing the third mock proposal
  (approvals 3 of 3, unlock ledger 1500, current ledger 1200, so 300 ledgers remain)
  with a confirming collaborator submits the call and marks it Executed; so does
  executing the first one (approvals 1 of 3, status Pending).
\<close>

theorem execute_unchecked_counterexample:
  "\<not> canExecuteProposal mockProposal3
   \<and> getLedgersRemaining mockProposal3 = 300
   \<and> submitted (handleExecuteClick (confirms ''tx'') 3 initialState) = [ExecuteCall 3]
   \<and> map status (proposals (handleExecuteClick (confirms ''tx'') 3 initialState))
       = [Pending, Approved, Executed]
   \<and> map level (notified (handleExecuteClick (confirms ''tx'') 3 initialState)) = [Success]
   \<and> \<not> canExecuteProposal mockProposal1
   \<and> submitted (handleExecuteClick (confirms ''tx'') 1 initialState) = [ExecuteCall 1]
   \<and> map status (proposals (handleExecuteClick (confirms ''tx'') 1 initialState))
       = [Executed, Approved, Approved]"
  by (simp add: canExecuteProposal_def isTimelockExpired_def getLedgersRemaining_def
      handleExecuteClick_def confirms_def initialState_def mockProposals_def
      mockProposal1_def mockProposal2_def mockProposal3_def Let_def)

text \<open>
  Claim C9, amended. The execute handler checks no precondition and reports no
  NotExecutable error: it always submits to the collaborator, and marks the proposal
  Executed when the collaborator confirms. The gate is where the card is rendered: the
  Execute button exists for Approved proposals only, and is disabled exactly when
  \<^verbatim>\<open>canExecuteProposal\<close> fails or the proposal is being executed. The rendering tells
  the causes apart. When \<open>N\<close> ledgers remain, with \<open>N\<close> positive, the tooltip is
  Timelocked, dash, wait \<open>N\<close> more ledgers and the label, unless the proposal is being
  executed, is Execute (Locked); otherwise the tooltip is the plain one and the label,
  unless the proposal is being executed, is Execute. A button labelled Execute (Locked)
  is disabled with ledgers remaining; a disabled button labelled Execute means that the
  threshold is unmet and no ledgers remain. With threshold 3, approvals 3, unlock
  ledger 1500 and current ledger 1200 an Approved proposal that is not being executed
  cannot be executed, 300 ledgers remain and the button is disabled with the timelock
  label and tooltip; with threshold 3, approvals 1 and unlock ledger 0 it cannot be
  executed and the button is disabled with the label Execute.
\<close>

theorem execute_gate:
  "(renderExecuteButton e s p = None) = (status p \<noteq> Approved)
   \<and> (status p = Approved \<longrightarrow>
        renderExecuteButton e s p
          = Some \<lparr>disabled = (\<not> canExecuteProposal p
                                \<or> (executingId s = Some (id' p) \<and> loading e)),
                  title = Some (if 0 < getLedgersRemaining p
                                then ''Timelocked '' @ emDash @ '' wait ''
                                       @ showInt (getLedgersRemaining p) @ '' more ledgers''
                                else ''Execute this proposal to transfer funds''),
                  label = (if executingId s = Some (id' p) \<and> loading e
                           then ''Executing'' @ ellipsis
                           else if 0 < getLedgersRemaining p then ''Execute (Locked)''
                           else ''Execute'')\<rparr>)
   \<and> (renderExecuteButton e s p = Some b \<and> disabled b \<and> label b = ''Execute'' \<longrightarrow>
        approvals p < threshold p \<and> getLedgersRemaining p = 0)
   \<and> (renderExecuteButton e s p = Some b \<and> label b = ''Execute (Locked)'' \<longrightarrow>
        0 < getLedgersRemaining p \<and> disabled b)
   \<and> (status p = Approved \<and> threshold p = 3 \<and> approvals p = 3 \<and> unlockLedger p = Some 1500
        \<and> currentLedger p = Some 1200
        \<and> \<not> (executingId s = Some (id' p) \<and> loading e) \<longrightarrow>
        \<not> canExecuteProposal p \<and> getLedgersRemaining p = 300
        \<and> renderExecuteButton e s p
            = Some \<lparr>disabled = True,
                    title = Some (''Timelocked '' @ emDash @ '' wait 300 more ledgers''),
                    label = ''Execute (Locked)''\<rparr>)
   \<and> (status p = Approved \<and> threshold p = 3 \<and> approvals p = 1 \<and> unlockLedger p = Some 0
        \<and> \<not> (executingId s = Some (id' p) \<and> loading e) \<longrightarrow>
        \<not> canExecuteProposal p \<and> getLedgersRemaining p = 0
        \<and> renderExecuteButton e s p
            = Some \<lparr>disabled = True,
                    title = Some ''Execute this proposal to transfer funds'',
                    label = ''Execute''\<rparr>)
   \<and> submitted (handleExecuteClick executeProposal proposalId s)
        = submitted s @ [ExecuteCall proposalId]
   \<and> (executeProposal proposalId = Inr txHash \<longrightarrow>
        proposals (handleExecuteClick executeProposal proposalId s)
          = map (\<lambda>q. if id' q = proposalId then q\<lparr>status := Executed\<rparr> else q) (proposals s))"
  using renderExecuteButton_None [of e s p] renderExecuteButton_Approved [of p e s]
    plain_label_cause [of e s p b] locked_label_cause [of e s p b]
    scenario_timelocked [where p = p and e = e and s = s]
    scenario_threshold [where p = p and e = e and s = s]
    handleExecuteClick_submitted [of executeProposal proposalId s]
    handleExecuteClick_confirmed [of executeProposal proposalId txHash s]
  by blast

theorem execute_gate_witness:
  "status mockProposal3 = Approved \<and> threshold mockProposal3 = 3 \<and> approvals mockProposal3 = 3
   \<and> unlockLedger mockProposal3 = Some 1500 \<and> currentLedger mockProposal3 = Some 1200
   \<and> \<not> loading \<lparr>isConnected = True, address = Some ''GABC...XYZ1'', userRole = Admin, loading = False\<rparr>
   \<and> \<not> canExecuteProposal mockProposal3
   \<and> getLedgersRemaining mockProposal3 = 300
   \<and> renderExecuteButton
        \<lparr>isConnected = True, address = Some ''GABC...XYZ1'', userRole = Admin, loading = False\<rparr>
        initialState mockProposal3
       = Some \<lparr>disabled = True,
               title = Some (''Timelocked '' @ emDash @ '' wait 300 more ledgers''),
               label = ''Execute (Locked)''\<rparr>
   \<and> status (mockProposal3\<lparr>currentLedger := Some 1458\<rparr>) = Approved
   \<and> renderExecuteButton
        \<lparr>isConnected = True, address = Some ''GABC...XYZ1'', userRole = Admin, loading = False\<rparr>
        initialState (mockProposal3\<lparr>currentLedger := Some 1458\<rparr>)
       = Some \<lparr>disabled = True,
               title = Some (''Timelocked '' @ emDash @ '' wait 42 more ledgers''),
               label = ''Execute (Locked)''\<rparr>
   \<and> status (mockProposal2\<lparr>approvals := 1\<rparr>) = Approved
   \<and> threshold (mockProposal2\<lparr>approvals := 1\<rparr>) = 3
   \<and> approvals (mockProposal2\<lparr>approvals := 1\<rparr>) = 1
   \<and> unlockLedger (mockProposal2\<lparr>approvals := 1\<rparr>) = Some 0
   \<and> renderExecuteButton
        \<lparr>isConnected = True, address = Some ''GABC...XYZ1'', userRole = Admin, loading = False\<rparr>
        initialState (mockProposal2\<lparr>approvals := 1\<rparr>)
       = Some \<lparr>disabled = True, title = Some ''Execute this proposal to transfer funds'',
               label = ''Execute''\<rparr>
   \<and> disabled \<lparr>disabled = True, title = Some ''Execute this proposal to transfer funds'',
               label = ''Execute''\<rparr>
   \<and> label \<lparr>disabled = True, title = Some ''Execute this proposal to transfer funds'',
               label = ''Execute''\<rparr> = ''Execute''
   \<and> approvals (mockProposal2\<lparr>approvals := 1\<rparr>) < threshold (mockProposal2\<lparr>approvals := 1\<rparr>)
   \<and> confirms ''tx'' 2 = Inr ''tx''
   \<and> map status (proposals (handleExecuteClick (confirms ''tx'') 2 initialState))
       = [Pending, Executed, Approved]"
proof -
  let ?e = "\<lparr>isConnected = True, address = Some ''GABC...XYZ1'', userRole = Admin, loading = False\<rparr>"
  let ?b = "\<lparr>disabled = True, title = Some ''Execute this proposal to transfer funds'',
              label = ''Execute''\<rparr>"
  have s1: "\<not> canExecuteProposal mockProposal3 \<and> getLedgersRemaining mockProposal3 = 300
      \<and> renderExecuteButton ?e initialState mockProposal3
          = Some \<lparr>disabled = True,
                  title = Some (''Timelocked '' @ emDash @ '' wait 300 more ledgers''),
                  label = ''Execute (Locked)''\<rparr>"
    using execute_gate [where p = mockProposal3 and s = initialState and e = ?e,
        THEN conjunct2, THEN conjunct2, THEN conjunct2, THEN conjunct2, THEN conjunct1]
    by (simp add: mockProposal3_def)
  have g: "getLedgersRemaining (mockProposal3\<lparr>currentLedger := Some 1458\<rparr>) = 42"
    by (simp add: getLedgersRemaining_def mockProposal3_def)
  have st: "status (mockProposal3\<lparr>currentLedger := Some 1458\<rparr>) = Approved"
    by (simp add: mockProposal3_def)
  have s2: "renderExecuteButton ?e initialState (mockProposal3\<lparr>currentLedger := Some 1458\<rparr>)
       = Some \<lparr>disabled = True,
               title = Some (''Timelocked '' @ emDash @ '' wait 42 more ledgers''),
               label = ''Execute (Locked)''\<rparr>"
    using execute_gate [where p = "mockProposal3\<lparr>currentLedger := Some 1458\<rparr>"
        and s = initialState and e = ?e, THEN conjunct2, THEN conjunct1, THEN mp, OF st]
    by (simp add: g showInt_42 canExecuteProposal_def isTimelockExpired_def)
  have s3: "\<not> canExecuteProposal (mockProposal2\<lparr>approvals := 1\<rparr>)
      \<and> getLedgersRemaining (mockProposal2\<lparr>approvals := 1\<rparr>) = 0
      \<and> renderExecuteButton ?e initialState (mockProposal2\<lparr>approvals := 1\<rparr>) = Some ?b"
    using execute_gate [where p = "mockProposal2\<lparr>approvals := 1\<rparr>" and s = initialState
        and e = ?e, THEN conjunct2, THEN conjunct2, THEN conjunct2, THEN conjunct2,
        THEN conjunct2, THEN conjunct1]
    by (simp add: mockProposal2_def)
  have s4: "approvals (mockProposal2\<lparr>approvals := 1\<rparr>) < threshold (mockProposal2\<lparr>approvals := 1\<rparr>)"
    using execute_gate [where p = "mockProposal2\<lparr>approvals := 1\<rparr>" and s = initialState
        and e = ?e and b = ?b, THEN conjunct2, THEN conjunct2, THEN conjunct1] s3
    by simp
  have s5: "map status (proposals (handleExecuteClick (confirms ''tx'') 2 initialState))
       = [Pending, Executed, Approved]"
    using execute_gate [where s = initialState and executeProposal = "confirms ''tx''"
        and proposalId = 2 and txHash = "''tx''",
        THEN conjunct2, THEN conjunct2, THEN conjunct2, THEN conjunct2, THEN conjunct2,
        THEN conjunct2, THEN conjunct2]
    by (simp add: confirms_def initialState_def mockProposals_def
        mockProposal1_def mockProposal2_def mockProposal3_def)
  show ?thesis
    using s1 s2 st s3 s4 s5
    by (simp add: confirms_def mockProposal2_def mockProposal3_def)
qed

subsection \<open>A proposal without a current ledger\<close>

text \<open>
  Claim C10. An absent current ledger is read as 0. For every proposal whose unlock
  ledger is nonzero (a ledger sequence number, so not negative) and whose current
  ledger is absent, the ledgers remaining equal the unlock ledger, the timelock is not
  expired and the proposal cannot be executed.
\<close>

theorem absent_currentLedger_locked:
  "getLedgersRemaining (p\<lparr>currentLedger := None\<rparr>)
     = getLedgersRemaining (p\<lparr>currentLedger := Some 0\<rparr>)
   \<and> (unlockLedger p = Some u \<and> u \<noteq> 0 \<and> 0 \<le> u \<and> currentLedger p = None \<longrightarrow>
        getLedgersRemaining p = u \<and> \<not> isTimelockExpired p \<and> \<not> canExecuteProposal p)"
  by (auto simp add: canExecuteProposal_def isTimelockExpired_def getLedgersRemaining_def
      split: option.splits)

theorem absent_currentLedger_locked_witness:
  "unlockLedger (mockProposal3\<lparr>currentLedger := None\<rparr>) = Some 1500
   \<and> (1500::int) \<noteq> 0 \<and> (0::int) \<le> 1500
   \<and> currentLedger (mockProposal3\<lparr>currentLedger := None\<rparr>) = None
   \<and> getLedgersRemaining (mockProposal3\<lparr>currentLedger := None\<rparr>) = 1500
   \<and> \<not> isTimelockExpired (mockProposal3\<lparr>currentLedger := None\<rparr>)
   \<and> \<not> canExecuteProposal (mockProposal3\<lparr>currentLedger := None\<rparr>)"
  using absent_currentLedger_locked [where p = "mockProposal3\<lparr>currentLedger := None\<rparr>" and u = 1500]
  by (simp add: mockProposal3_def)

end
